theory Spec2Isabelle
  imports Main
begin

section \<open>Strings, Python values and errors\<close>

text \<open>
  The module \<^verbatim>\<open>web_newform.py\<close> builds display strings. Python strings are modelled as
  \<^typ>\<open>string\<close>; the backslash of the LaTeX delimiters is the character with code 0x5C.
  Every \<^verbatim>\<open>raise\<close> and every failing built-in operation is a value \<open>Inl e\<close> of a sum.
\<close>

abbreviation bs :: char where
  "bs \<equiv> CHR 0x5C"

datatype error = ValueError string | TypeError | IndexError

text \<open>\<^verbatim>\<open>str(n)\<close> and \<^verbatim>\<open>'%s' % n\<close> for a Python integer: its decimal digits.\<close>

fun str_nat :: "nat \<Rightarrow> string" where
  "str_nat n =
     (if n < 10 then [''0123456789'' ! n]
      else str_nat (n div 10) @ [''0123456789'' ! (n mod 10)])"

declare str_nat.simps [simp del]

definition str_int :: "int \<Rightarrow> string" where
  "str_int i = (if i < 0 then CHR ''-'' # str_nat (nat (- i)) else str_nat (nat i))"

section \<open>Label validation\<close>

text \<open>
  \<^verbatim>\<open>LABEL_RE = re.compile(r"^[0-9]+\.[0-9]+\.[a-z]+\.[a-z]+$")\<close> and
  \<^verbatim>\<open>valid_label(label) = bool(LABEL_RE.match(label))\<close>.

  A pattern of this shape is a sequence of items: a single character position, a
  one-or-more repetition of a character position, and the two anchors. \<open>re_match\<close> is
  the backtracking matcher of \<^verbatim>\<open>re.match\<close> (the match starts at the first character and
  need not reach the last one). The flag says whether the current position is the start of
  the string. Without the MULTILINE flag, \<^verbatim>\<open>^\<close> matches at the start of the string only and
  \<^verbatim>\<open>$\<close> matches at the end of the string or just before a newline that ends the string.
\<close>

datatype atom = Lit char | Range char char

datatype item = One atom | Plus atom | Caret | Dollar

fun atom_ok :: "atom \<Rightarrow> char \<Rightarrow> bool" where
  "atom_ok (Lit a) c = (c = a)"
| "atom_ok (Range lo hi) c =
     ((of_char lo :: nat) \<le> of_char c \<and> (of_char c :: nat) \<le> of_char hi)"

fun re_match :: "item list \<Rightarrow> bool \<Rightarrow> string \<Rightarrow> bool" where
  "re_match [] st s = True"
| "re_match (Caret # r) st s = (st \<and> re_match r st s)"
| "re_match (Dollar # r) st s = ((s = [] \<or> s = ''\<newline>'') \<and> re_match r st s)"
| "re_match (One a # r) st [] = False"
| "re_match (One a # r) st (c # cs) = (atom_ok a c \<and> re_match r False cs)"
| "re_match (Plus a # r) st [] = False"
| "re_match (Plus a # r) st (c # cs) =
     (atom_ok a c \<and> (re_match (Plus a # r) False cs \<or> re_match r False cs))"

definition LABEL_RE :: "item list" where
  "LABEL_RE =
     [Caret,
      Plus (Range (CHR ''0'') (CHR ''9'')), One (Lit (CHR ''.'')),
      Plus (Range (CHR ''0'') (CHR ''9'')), One (Lit (CHR ''.'')),
      Plus (Range (CHR ''a'') (CHR ''z'')), One (Lit (CHR ''.'')),
      Plus (Range (CHR ''a'') (CHR ''z'')),
      Dollar]"

definition valid_label :: "string \<Rightarrow> bool" where
  "valid_label label = re_match LABEL_RE True label"

text \<open>
  The specification's wording of the same test: four dot-separated parts, an integer, an
  integer, a run of lowercase letters and another run of lowercase letters.
\<close>

definition is_digit :: "char \<Rightarrow> bool" where
  "is_digit c = atom_ok (Range (CHR ''0'') (CHR ''9'')) c"

definition is_lower :: "char \<Rightarrow> bool" where
  "is_lower c = atom_ok (Range (CHR ''a'') (CHR ''z'')) c"

definition four_part_label :: "string \<Rightarrow> bool" where
  "four_part_label s =
     (\<exists>a b c d. s = a @ ''.'' @ b @ ''.'' @ c @ ''.'' @ d
        \<and> a \<noteq> [] \<and> list_all is_digit a
        \<and> b \<noteq> [] \<and> list_all is_digit b
        \<and> c \<noteq> [] \<and> list_all is_lower c
        \<and> d \<noteq> [] \<and> list_all is_lower d)"

section \<open>DimGrid\<close>

text \<open>
  The grid is a dictionary with the keys \<^verbatim>\<open>'M'\<close>, \<^verbatim>\<open>'S'\<close>, \<^verbatim>\<open>'E'\<close>, each holding a dictionary
  with the keys \<^verbatim>\<open>'all'\<close>, \<^verbatim>\<open>'new'\<close>, \<^verbatim>\<open>'old'\<close>. Every grid the module builds has exactly
  these nine entries, so it is a record of three records. Python integers are unbounded.
\<close>

record dim_row =
  d_all :: int
  d_new :: int
  d_old :: int

record DimGrid =
  g_M :: dim_row
  g_S :: dim_row
  g_E :: dim_row

definition DimGrid_init :: "DimGrid option \<Rightarrow> DimGrid" where
  "DimGrid_init grid =
     (case grid of
        None \<Rightarrow> \<lparr>g_M = \<lparr>d_all = 0, d_new = 0, d_old = 0\<rparr>,
                 g_S = \<lparr>d_all = 0, d_new = 0, d_old = 0\<rparr>,
                 g_E = \<lparr>d_all = 0, d_new = 0, d_old = 0\<rparr>\<rparr>
      | Some g \<Rightarrow> g)"

text \<open>The right operand of \<^verbatim>\<open>+\<close> is any Python value: an integer, a grid, or something else.\<close>

datatype operand = PyInt int | PyGrid DimGrid | PyOther

definition add_row :: "dim_row \<Rightarrow> dim_row \<Rightarrow> dim_row" where
  "add_row a b =
     \<lparr>d_all = d_all a + d_all b, d_new = d_new a + d_new b, d_old = d_old a + d_old b\<rparr>"

definition DimGrid_add :: "DimGrid \<Rightarrow> operand \<Rightarrow> error + DimGrid" where
  "DimGrid_add self other =
     (case other of
        PyInt i \<Rightarrow> (if i = 0 then Inr self else Inl TypeError)
      | PyGrid g \<Rightarrow>
          Inr (DimGrid_init (Some \<lparr>g_M = add_row (g_M self) (g_M g),
                                    g_S = add_row (g_S self) (g_S g),
                                    g_E = add_row (g_E self) (g_E g)\<rparr>))
      | PyOther \<Rightarrow> Inl TypeError)"

text \<open>
  A row of the newforms table. The fields the module reads unconditionally are present;
  \<^verbatim>\<open>is_CM\<close> and \<^verbatim>\<open>nf_label\<close> are read with \<^verbatim>\<open>__dict__.get\<close> and may be absent.
\<close>

record newform_row =
  label :: string
  space_label :: string
  level :: int
  weight :: int
  char_orbit :: int
  dim :: int
  hecke_orbit_code :: int
  mf_dim :: int
  eis_new_dim :: int
  cusp_dim :: int
  eis_dim :: int
  inner_twist :: "int list"
  is_CM :: "int option"
  nf_label :: "string option"

definition from_db :: "newform_row \<Rightarrow> DimGrid" where
  "from_db data =
     DimGrid_init (Some
       \<lparr>g_M = \<lparr>d_all = mf_dim data,
                d_new = dim data + eis_new_dim data,
                d_old = mf_dim data - dim data - eis_new_dim data\<rparr>,
        g_S = \<lparr>d_all = cusp_dim data,
                d_new = dim data,
                d_old = cusp_dim data - dim data\<rparr>,
        g_E = \<lparr>d_all = eis_dim data,
                d_new = eis_new_dim data,
                d_old = eis_dim data - eis_new_dim data\<rparr>\<rparr>)"

section \<open>The q-expansion formatter\<close>

text \<open>
  \<^verbatim>\<open>eigs_as_seqseq_to_qexp(eigseq)\<close>. The polynomial ring, the power series ring and
  \<^verbatim>\<open>latex\<close> belong to the computer algebra library. The term
  \<^verbatim>\<open>sum([Rgens[i]*eigseq[j][i] for i in range(d)])\<close> is the linear form with the coefficients
  \<^verbatim>\<open>eigseq[j][0], ..., eigseq[j][d-1]\<close> on the basis \<open>1, beta1, ..., beta(d-1)\<close>, which is
  linearly independent, so the term is zero exactly when all these coefficients are zero.
  The term is represented by its coefficient vector, and the typesetting of
  \<^verbatim>\<open>term*(q**j)\<close> is the parameter \<open>latex\<close>, a function of that vector and of \<open>j\<close>.
  Reading \<^verbatim>\<open>eigseq[j][i]\<close> beyond the end of a row and reading \<^verbatim>\<open>latexterm[0]\<close> of an empty
  string raise IndexError.
\<close>

definition term_of :: "nat \<Rightarrow> int list \<Rightarrow> error + int list" where
  "term_of d row = (if length row < d then Inl IndexError else Inr (take d row))"

definition term_nonzero :: "int list \<Rightarrow> bool" where
  "term_nonzero t = list_ex (\<lambda>c. c \<noteq> 0) t"

text \<open>The plain string formatting \<^verbatim>\<open>'\(%s\)' % x\<close>, used for the properties of a record.\<close>

definition wrap :: "string \<Rightarrow> string" where
  "wrap t = bs # ''('' @ t @ bs # '')''"

text \<open>
  \<^verbatim>\<open>latex\<close> returns a \<^verbatim>\<open>LatexExpr\<close>, a subclass of \<^verbatim>\<open>str\<close> of the computer algebra library
  (\<^verbatim>\<open>sage.misc.latex\<close>) that redefines \<^verbatim>\<open>+\<close>: \<^verbatim>\<open>LatexExpr.__add__\<close> puts a blank between
  the two strings when the left one ends with a character other than a blank and the right
  one begins with a character other than a blank (an empty operand adds no blank), and
  \<^verbatim>\<open>LatexExpr.__radd__(self, other)\<close> is \<^verbatim>\<open>LatexExpr(other) + self\<close>. Python tries the
  reflected method of the right operand first when its class is a subclass of the class of
  the left operand. So a sum with a \<^verbatim>\<open>LatexExpr\<close> on either side is a \<^verbatim>\<open>LatexExpr\<close> built
  with the blank rule, and the sum of two plain strings is their concatenation. The same
  holds for \<^verbatim>\<open>s += ...\<close>, since strings have no in-place addition.
\<close>

datatype pystr = Str string | LatexExpr string

fun content :: "pystr \<Rightarrow> string" where
  "content (Str a) = a"
| "content (LatexExpr a) = a"

definition latex_concat :: "string \<Rightarrow> string \<Rightarrow> string" where
  "latex_concat left right =
     (if left \<noteq> [] \<and> last left \<noteq> CHR '' '' \<and> right \<noteq> [] \<and> hd right \<noteq> CHR '' ''
      then left @ CHR '' '' # right
      else left @ right)"

fun py_add :: "pystr \<Rightarrow> pystr \<Rightarrow> pystr" where
  "py_add (Str a) (Str b) = Str (a @ b)"
| "py_add (Str a) (LatexExpr b) = LatexExpr (latex_concat a b)"
| "py_add (LatexExpr a) y = LatexExpr (latex_concat a (content y))"

text \<open>
  One pass of the loop body for the index \<open>j\<close>, on the accumulated string \<open>s\<close>. The test
  \<^verbatim>\<open>s <> ''\<close> compares the characters of \<open>s\<close>.
\<close>

definition qexp_step ::
  "(int list \<Rightarrow> nat \<Rightarrow> string) \<Rightarrow> nat \<Rightarrow> int list list \<Rightarrow> error + pystr \<Rightarrow> nat
     \<Rightarrow> error + pystr" where
  "qexp_step latex d eigseq acc j =
     (case acc of
        Inl e \<Rightarrow> Inl e
      | Inr s \<Rightarrow>
          (case term_of d (eigseq ! j) of
             Inl e \<Rightarrow> Inl e
           | Inr t \<Rightarrow>
               if term_nonzero t then
                 (let latexterm = LatexExpr (latex t j) in
                  if content s \<noteq> [] then
                    (case content latexterm of
                       [] \<Rightarrow> Inl IndexError
                     | c # _ \<Rightarrow>
                         if c \<noteq> CHR ''-'' then
                           Inr (py_add s
                                  (py_add (py_add (Str (bs # ''(''))
                                             (py_add (Str ''+'') latexterm))
                                     (Str (bs # '')''))))
                         else
                           Inr (py_add s
                                  (py_add (py_add (Str (bs # ''('')) latexterm)
                                     (Str (bs # '')'')))))
                  else
                    Inr (py_add s
                           (py_add (py_add (Str (bs # ''('')) latexterm) (Str (bs # '')'')))))
               else Inr s))"

text \<open>The remainder marker \<^verbatim>\<open>'\(+O(q^{%s})\)' % prec\<close>, a plain string.\<close>

definition remainder_marker :: "nat \<Rightarrow> string" where
  "remainder_marker prec = bs # ''(+O(q^{'' @ str_nat prec @ ''})'' @ bs # '')''"

definition eigs_as_seqseq_to_qexp ::
  "(int list \<Rightarrow> nat \<Rightarrow> string) \<Rightarrow> int list list \<Rightarrow> error + pystr" where
  "eigs_as_seqseq_to_qexp latex eigseq =
     (let prec = length eigseq in
      if prec = 0 then Inr (Str ''O(1)'')
      else
        (let d = length (eigseq ! 0) in
         case foldl (qexp_step latex d eigseq) (Inr (Str [])) [0..<prec] of
           Inl e \<Rightarrow> Inl e
         | Inr s \<Rightarrow>
             Inr (py_add s (Str (remainder_marker prec)))))"

text \<open>
  The policy in the specification's words, on the typeset nonzero terms in order (those
  of the first \<open>n\<close> rows, and those of all rows): each term is put between \<^verbatim>\<open>\(\<close> and
  \<^verbatim>\<open>\)\<close>, every term but the first gets a \<^verbatim>\<open>+\<close> in front unless it begins with a minus
  sign, and the enclosed terms follow one another separated by a blank. The pieces of one
  enclosed term are joined by the blank rule of the typesetting library.
\<close>

definition terms_upto ::
  "(int list \<Rightarrow> nat \<Rightarrow> string) \<Rightarrow> nat \<Rightarrow> int list list \<Rightarrow> nat \<Rightarrow> string list" where
  "terms_upto latex d eigseq n =
     map (\<lambda>j. latex (take d (eigseq ! j)) j)
       (filter (\<lambda>j. term_nonzero (take d (eigseq ! j))) [0..<n])"

definition nonzero_terms ::
  "(int list \<Rightarrow> nat \<Rightarrow> string) \<Rightarrow> nat \<Rightarrow> int list list \<Rightarrow> string list" where
  "nonzero_terms latex d eigseq = terms_upto latex d eigseq (length eigseq)"

definition enclosed :: "string \<Rightarrow> string" where
  "enclosed u = latex_concat (latex_concat (bs # ''('') u) (bs # '')'')"

fun signed_term :: "string \<Rightarrow> string" where
  "signed_term [] = ''+''"
| "signed_term (c # cs) = (if c = CHR ''-'' then c # cs else latex_concat ''+'' (c # cs))"

fun join_terms :: "string list \<Rightarrow> string" where
  "join_terms [] = []"
| "join_terms (t # ts) =
     enclosed t @ concat (map (\<lambda>u. CHR '' '' # enclosed (signed_term u)) ts)"

definition qexp_string :: "string list \<Rightarrow> nat \<Rightarrow> pystr" where
  "qexp_string ts prec =
     (if ts = [] then Str (remainder_marker prec)
      else LatexExpr (join_terms ts @ CHR '' '' # remainder_marker prec))"

section \<open>Record construction\<close>

text \<open>
  A row of the Hecke eigenvalue table as fetched with the columns \<^verbatim>\<open>n\<close> and \<^verbatim>\<open>an\<close>; the
  vector \<^verbatim>\<open>an\<close> may be missing. A search result is a Python list, which is false when
  empty, or an iterator, which is always true.
\<close>

record hecke_row =
  ev_n :: int
  ev_an :: "int list option"

datatype 'a result_seq = PyList "'a list" | PyIter "'a list"

fun truthy :: "'a result_seq \<Rightarrow> bool" where
  "truthy (PyList xs) = (xs \<noteq> [])"
| "truthy (PyIter xs) = True"

fun rows_of :: "'a result_seq \<Rightarrow> 'a list" where
  "rows_of (PyList xs) = xs"
| "rows_of (PyIter xs) = xs"

text \<open>
  The loop \<^verbatim>\<open>for i, ev in enumerate(eigenvals)\<close> of the constructor. It returns the flag
  \<^verbatim>\<open>has_exact_qexp\<close> and the list \<^verbatim>\<open>qexp\<close>; the \<^verbatim>\<open>break\<close> leaves the loop with the flag
  cleared. \<^verbatim>\<open>not ev.get('an')\<close> holds for a missing and for an empty vector.
\<close>

fun qexp_loop :: "nat \<Rightarrow> hecke_row list \<Rightarrow> int list list \<Rightarrow> error + bool \<times> int list list" where
  "qexp_loop i [] q = Inr (True, q)"
| "qexp_loop i (ev # evs) q =
     (if ev_n ev \<noteq> int i + 1 then Inl (ValueError ''Missing eigenvalue'')
      else
        (case ev_an ev of
           None \<Rightarrow> Inr (False, q)
         | Some v \<Rightarrow> if v = [] then Inr (False, q) else qexp_loop (Suc i) evs (q @ [v])))"

record qexp_state =
  has_exact_qexp :: bool
  qexp :: "int list list option"
  qexp_prec :: "int option"

definition init_qexp :: "int \<Rightarrow> hecke_row result_seq \<Rightarrow> error + qexp_state" where
  "init_qexp dm eigenvals =
     (if truthy eigenvals then
        (let zero = replicate (nat dm) (0::int) in
         case qexp_loop 0 (rows_of eigenvals) [zero] of
           Inl e \<Rightarrow> Inl e
         | Inr (ex, q) \<Rightarrow>
             Inr \<lparr>has_exact_qexp = ex, qexp = Some q, qexp_prec = Some (int (length q) - 1)\<rparr>)
      else Inr \<lparr>has_exact_qexp = False, qexp = None, qexp_prec = None\<rparr>)"

text \<open>
  \<^verbatim>\<open>cremona_letter_code\<close> is imported from the computer algebra library
  (\<^verbatim>\<open>sage.databases.cremona\<close>): the base 26 representation of a non-negative integer with
  the digits \<open>a = 0, ..., z = 25\<close>, so 0 gives \<open>a\<close>, 25 gives \<open>z\<close> and 26 gives \<open>ba\<close>; a
  negative argument raises ValueError.
\<close>

fun cremona_digits :: "nat \<Rightarrow> string \<Rightarrow> string" where
  "cremona_digits n s =
     (if n = 0 then s
      else cremona_digits (n div 26) ((''abcdefghijklmnopqrstuvwxyz'' ! (n mod 26)) # s))"

declare cremona_digits.simps [simp del]

definition cremona_letter_code :: "int \<Rightarrow> error + string" where
  "cremona_letter_code k =
     (if k < 0 then
        Inl (ValueError ''Cremona letter codes are only defined for non-negative integers'')
      else if k = 0 then Inr ''a''
      else Inr (cremona_digits (nat k) []))"

definition char_orbit_label_of :: "int \<Rightarrow> int \<Rightarrow> error + string" where
  "char_orbit_label_of lev orb =
     (case cremona_letter_code (orb - 1) of
        Inl e \<Rightarrow> Inl e
      | Inr code \<Rightarrow> Inr (bs # ''('' @ str_int lev @ bs # '').'' @ code))"

text \<open>
  The data store: \<^verbatim>\<open>db.mf_newforms.lookup\<close> and \<^verbatim>\<open>db.mf_newspaces.lookup\<close> return a row or
  \<^verbatim>\<open>None\<close>, \<^verbatim>\<open>db.mf_hecke_nf.search\<close> returns the rows of an orbit code. The accesses a call
  makes are recorded in order, so that a path without any access can be told apart.
  \<^verbatim>\<open>url_character\<close> (called with the modulus and the number) is a parameter.
\<close>

record newspace_row =
  conrey_labels :: "int list"
  cyc_degree :: int

record database =
  mf_newforms :: "string \<rightharpoonup> newform_row"
  mf_newspaces :: "string \<rightharpoonup> newspace_row"
  mf_hecke_nf :: "int \<Rightarrow> hecke_row result_seq"

datatype db_call = Lookup_newforms string | Lookup_newspaces string | Search_hecke_nf int

record WebNewform =
  wn_data :: newform_row
  dim_grid :: DimGrid
  wn_chardata :: newspace_row
  wn_qexp :: qexp_state
  char_conrey :: int
  char_conrey_str :: string
  char_conrey_link :: string
  wn_inner_twist :: "(int \<times> string) list"
  char_orbit_label :: string
  properties :: "(string \<times> string) list"
  bread :: "(string \<times> string) list"
  title :: string
  friends :: "(string \<times> string) list"

definition WebNewform_init ::
  "(int \<Rightarrow> int \<Rightarrow> string) \<Rightarrow> database \<Rightarrow> newform_row \<Rightarrow> newspace_row option
     \<Rightarrow> db_call list \<times> (error + WebNewform)" where
  "WebNewform_init url_character db data space =
     (let grid = from_db data;
          (log1, chardata) =
            (case space of
               None \<Rightarrow>
                 ([Lookup_newspaces (space_label data)],
                  case mf_newspaces db (space_label data) of
                    None \<Rightarrow> Inl TypeError
                  | Some row \<Rightarrow> Inr row)
             | Some sp \<Rightarrow> ([], Inr sp))
      in case chardata of
           Inl e \<Rightarrow> (log1, Inl e)
         | Inr cd \<Rightarrow>
             (let log2 = log1 @ [Search_hecke_nf (hecke_orbit_code data)] in
              case init_qexp (dim data) (mf_hecke_nf db (hecke_orbit_code data)) of
                Inl e \<Rightarrow> (log2, Inl e)
              | Inr qs \<Rightarrow>
                  (let log3 = log2 @ [Lookup_newspaces (space_label data)] in
                   case mf_newspaces db (space_label data) of
                     None \<Rightarrow> (log3, Inl TypeError)
                   | Some row \<Rightarrow>
                       (case conrey_labels row of
                          [] \<Rightarrow> (log3, Inl IndexError)
                        | cc # _ \<Rightarrow>
                            (let ccs = bs # ''chi_{'' @ str_int (level data) @ ''}(''
                                         @ str_int cc @ '','' @ bs # ''cdot)'' in
                             case char_orbit_label_of (level data) (char_orbit data) of
                               Inl e \<Rightarrow> (log3, Inl e)
                             | Inr col \<Rightarrow>
                                 (log3,
                                  Inr \<lparr>wn_data = data,
                                       dim_grid = grid,
                                       wn_chardata = cd,
                                       wn_qexp = qs,
                                       char_conrey = cc,
                                       char_conrey_str = ccs,
                                       char_conrey_link = url_character (level data) cc,
                                       wn_inner_twist =
                                         map (\<lambda>chi. (chi, url_character (level data) chi))
                                           (inner_twist data),
                                       char_orbit_label = col,
                                       properties =
                                         [(''Label'', label data),
                                          (''Weight'', str_int (weight data)),
                                          (''Character Orbit'', str_int (char_orbit data)),
                                          (''Representative Character'', wrap ccs),
                                          (''Dimension'', str_int (dim data))]
                                         @ (case is_CM data of
                                              None \<Rightarrow> []
                                            | Some v \<Rightarrow>
                                                if v = 0 then [] else [(''CM'', str_int v)]),
                                       bread = [],
                                       title = ''Newform '' @ label data,
                                       friends = []\<rparr>))))))"

definition by_label ::
  "(int \<Rightarrow> int \<Rightarrow> string) \<Rightarrow> database \<Rightarrow> string \<Rightarrow> db_call list \<times> (error + WebNewform)" where
  "by_label url_character db lbl =
     (if \<not> valid_label lbl then
        ([], Inl (ValueError (''Invalid newform label '' @ lbl @ ''.'')))
      else
        (case mf_newforms db lbl of
           None \<Rightarrow>
             ([Lookup_newforms lbl], Inl (ValueError (''Newform '' @ lbl @ '' not found'')))
         | Some data \<Rightarrow>
             (let (calls, res) = WebNewform_init url_character db data None
              in (Lookup_newforms lbl # calls, res))))"

section \<open>Display helpers\<close>

text \<open>
  \<^verbatim>\<open>nf_display_knowl(label, name)\<close> and \<^verbatim>\<open>field_pretty(label)\<close> are imported from other modules
  and are parameters.
\<close>

definition field_knowl ::
  "(string \<Rightarrow> string \<Rightarrow> string) \<Rightarrow> (string \<Rightarrow> string) \<Rightarrow> WebNewform \<Rightarrow> string" where
  "field_knowl nf_display_knowl field_pretty self =
     (case nf_label (wn_data self) of
        None \<Rightarrow> ''Not in LMFDB''
      | Some l \<Rightarrow> if l \<noteq> [] then nf_display_knowl l (field_pretty l) else ''Not in LMFDB'')"

definition field_display ::
  "(string \<Rightarrow> string \<Rightarrow> string) \<Rightarrow> (string \<Rightarrow> string) \<Rightarrow> WebNewform \<Rightarrow> string" where
  "field_display nf_display_knowl field_pretty self =
     (case nf_label (wn_data self) of
        None \<Rightarrow> bs # ''('' @ bs # ''Q('' @ bs # ''nu)'' @ bs # '')''
      | Some l \<Rightarrow>
          if l = ''1.1.1.1'' then nf_display_knowl l (bs # ''('' @ bs # ''Q'' @ bs # '')'')
          else bs # ''('' @ bs # ''Q('' @ bs # ''nu)'' @ bs # '') = ''
                 @ field_knowl nf_display_knowl field_pretty self)"

section \<open>Auxiliary notions and example data\<close>

text \<open>A row carries an eigenvalue vector when \<^verbatim>\<open>ev.get('an')\<close> is true.\<close>

definition has_vec :: "hecke_row \<Rightarrow> bool" where
  "has_vec ev = (case ev_an ev of None \<Rightarrow> False | Some v \<Rightarrow> v \<noteq> [])"

text \<open>
  A small store with one newform of level 7, and stand-ins for the imported functions
  \<^verbatim>\<open>url_character\<close>, \<^verbatim>\<open>nf_display_knowl\<close> and \<^verbatim>\<open>field_pretty\<close>, on which the
  theorems below are instantiated.
\<close>

definition sample_data :: newform_row where
  "sample_data =
     \<lparr>label = ''7.3.b.a'', space_label = ''7.3.b'', level = 7, weight = 3, char_orbit = 2,
      dim = 2, hecke_orbit_code = 42, mf_dim = 3, eis_new_dim = 0, cusp_dim = 2, eis_dim = 1,
      inner_twist = [1, 6], is_CM = Some 1, nf_label = None\<rparr>"

definition sample_rows :: "hecke_row list" where
  "sample_rows = [\<lparr>ev_n = 1, ev_an = Some [1, 0]\<rparr>, \<lparr>ev_n = 2, ev_an = Some [0, 1]\<rparr>]"

definition sample_db :: database where
  "sample_db =
     \<lparr>mf_newforms = [''7.3.b.a'' \<mapsto> sample_data],
      mf_newspaces = [''7.3.b'' \<mapsto> \<lparr>conrey_labels = [6], cyc_degree = 1\<rparr>],
      mf_hecke_nf = (\<lambda>code. if code = 42 then PyList sample_rows else PyList [])\<rparr>"

definition sample_url :: "int \<Rightarrow> int \<Rightarrow> string" where
  "sample_url modulus number = ''/Character/Dirichlet/'' @ str_int modulus @ ''/'' @ str_int number"

definition sample_knowl :: "string \<Rightarrow> string \<Rightarrow> string" where
  "sample_knowl lbl name = name @ '' ['' @ lbl @ '']''"

definition sample_pretty :: "string \<Rightarrow> string" where
  "sample_pretty lbl = lbl"

definition sample_latex :: "int list \<Rightarrow> nat \<Rightarrow> string" where
  "sample_latex t j = str_int (sum_list t) @ ''q^{'' @ str_nat j @ ''}''"

definition sample_newform :: WebNewform where
  "sample_newform =
     \<lparr>wn_data = sample_data,
      dim_grid = from_db sample_data,
      wn_chardata = \<lparr>conrey_labels = [6], cyc_degree = 1\<rparr>,
      wn_qexp = \<lparr>has_exact_qexp = True, qexp = Some [[0, 0], [1, 0], [0, 1]],
                  qexp_prec = Some 2\<rparr>,
      char_conrey = 6,
      char_conrey_str = bs # ''chi_{7}(6,'' @ bs # ''cdot)'',
      char_conrey_link = sample_url 7 6,
      wn_inner_twist = [(1, sample_url 7 1), (6, sample_url 7 6)],
      char_orbit_label = bs # ''(7'' @ bs # '').b'',
      properties = [],
      bread = [],
      title = ''Newform 7.3.b.a'',
      friends = []\<rparr>"



text \<open>
  The string accumulated by the loop of the formatter once the typeset nonzero terms \<open>ts\<close>
  have been met: the plain empty string before the first of them, a \<^verbatim>\<open>LatexExpr\<close> after.
\<close>

definition loop_string :: "string list \<Rightarrow> pystr" where
  "loop_string ts = (if ts = [] then Str [] else LatexExpr (join_terms ts))"

text \<open>What the anchor \<^verbatim>\<open>$\<close> accepts as the rest of the string.\<close>

definition tail_ok :: "string \<Rightarrow> bool" where
  "tail_ok e = re_match [Dollar] False e"

section \<open>Properties of DimGrid\<close>

text \<open>
  Claim C6. For every row, the grid built by \<open>from_db\<close> satisfies
  \<open>all = new + old\<close> in each of the rows M, S and E.
\<close>

theorem from_db_all_new_old:
  "d_all (g_M (from_db data)) = d_new (g_M (from_db data)) + d_old (g_M (from_db data))
   \<and> d_all (g_S (from_db data)) = d_new (g_S (from_db data)) + d_old (g_S (from_db data))
   \<and> d_all (g_E (from_db data)) = d_new (g_E (from_db data)) + d_old (g_E (from_db data))"
  by (simp add: from_db_def DimGrid_init_def)

lemma add_row_zero: "add_row r \<lparr>d_all = 0, d_new = 0, d_old = 0\<rparr> = r"
  by (simp add: add_row_def)

lemma add_row_commute: "add_row a b = add_row b a"
  by (simp add: add_row_def)

lemma add_row_assoc: "add_row (add_row a b) c = add_row a (add_row b c)"
  by (simp add: add_row_def)

lemma DimGrid_add_grid:
  "DimGrid_add a (PyGrid b) =
     Inr \<lparr>g_M = add_row (g_M a) (g_M b), g_S = add_row (g_S a) (g_S b),
          g_E = add_row (g_E a) (g_E b)\<rparr>"
  by (simp add: DimGrid_add_def DimGrid_init_def)

text \<open>
  Claim C7. Adding the all-zero grid \<open>DimGrid()\<close> to a grid returns a grid with the same
  entries; the sum of two grids never raises, is commutative and is associative.
\<close>

theorem DimGrid_add_laws:
  "DimGrid_add g (PyGrid (DimGrid_init None)) = Inr g
   \<and> DimGrid_add a (PyGrid b) = DimGrid_add b (PyGrid a)
   \<and> (\<exists>ab bc r. DimGrid_add a (PyGrid b) = Inr ab \<and> DimGrid_add b (PyGrid c) = Inr bc
          \<and> DimGrid_add ab (PyGrid c) = Inr r \<and> DimGrid_add a (PyGrid bc) = Inr r)"
proof (intro conjI)
  show "DimGrid_add g (PyGrid (DimGrid_init None)) = Inr g"
    by (simp add: DimGrid_add_grid) (simp add: DimGrid_init_def add_row_zero)
  show "DimGrid_add a (PyGrid b) = DimGrid_add b (PyGrid a)"
    by (simp add: DimGrid_add_grid add_row_commute)
  show "\<exists>ab bc r. DimGrid_add a (PyGrid b) = Inr ab \<and> DimGrid_add b (PyGrid c) = Inr bc
          \<and> DimGrid_add ab (PyGrid c) = Inr r \<and> DimGrid_add a (PyGrid bc) = Inr r"
    by (simp add: DimGrid_add_grid add_row_assoc)
qed

section \<open>Properties of the q-expansion formatter\<close>

lemma latex_concat_Nil [simp]: "latex_concat [] r = r" "latex_concat l [] = l"
  by (simp_all add: latex_concat_def)

lemma enclosed_props:
  "enclosed u \<noteq> []" "hd (enclosed u) = bs" "last (enclosed u) = CHR '')''"
  by (auto simp: enclosed_def latex_concat_def)

lemma enclosed_plain:
  "u \<noteq> [] \<Longrightarrow> hd u \<noteq> CHR '' '' \<Longrightarrow> last u \<noteq> CHR '' '' \<Longrightarrow>
     enclosed u = bs # ''( '' @ u @ '' '' @ bs # '')''"
  by (simp add: enclosed_def latex_concat_def)

lemma py_add_enclose:
  "py_add (py_add (Str (bs # ''('')) (LatexExpr u)) (Str (bs # '')'')) = LatexExpr (enclosed u)"
  by (simp add: enclosed_def)

lemma join_terms_snoc:
  "join_terms (ts @ [u]) =
     (if ts = [] then enclosed u else join_terms ts @ CHR '' '' # enclosed (signed_term u))"
  by (cases ts) simp_all

lemma join_terms_props:
  "ts \<noteq> [] \<Longrightarrow> join_terms ts \<noteq> [] \<and> last (join_terms ts) = CHR '')''"
proof (induction ts rule: rev_induct)
  case Nil
  then show ?case by simp
next
  case (snoc u ts)
  show ?case
    using enclosed_props [of u] enclosed_props [of "signed_term u"]
    by (simp add: join_terms_snoc)
qed

lemma latex_concat_join:
  assumes "ts \<noteq> []" and "r \<noteq> []" and "hd r \<noteq> CHR '' ''"
  shows "latex_concat (join_terms ts) r = join_terms ts @ CHR '' '' # r"
  using join_terms_props [OF assms(1)] assms(2,3) by (simp add: latex_concat_def)

lemma terms_upto_Suc:
  "terms_upto latex d eigseq (Suc n) =
     (if term_nonzero (take d (eigseq ! n))
      then terms_upto latex d eigseq n @ [latex (take d (eigseq ! n)) n]
      else terms_upto latex d eigseq n)"
  by (simp add: terms_upto_def)

lemma content_loop_string: "content (loop_string ts) = join_terms ts"
  by (simp add: loop_string_def)

lemma join_terms_empty: "join_terms ts = [] \<longleftrightarrow> ts = []"
  using join_terms_props [of ts] by auto

lemma loop_string_snoc_first:
  "py_add (loop_string []) (LatexExpr (enclosed u)) = loop_string ([] @ [u])"
  by (simp add: loop_string_def)

lemma loop_string_snoc_later:
  assumes "ts \<noteq> []"
  shows "py_add (loop_string ts) (LatexExpr (enclosed (signed_term u))) = loop_string (ts @ [u])"
  using assms enclosed_props [of "signed_term u"]
  by (simp add: loop_string_def join_terms_snoc latex_concat_join)

lemma qexp_step_join:
  assumes "d \<le> length (eigseq ! n)" and "\<forall>t j. latex t j \<noteq> []"
  shows "qexp_step latex d eigseq (Inr (loop_string (terms_upto latex d eigseq n))) n
           = Inr (loop_string (terms_upto latex d eigseq (Suc n)))"
proof (cases "term_nonzero (take d (eigseq ! n))")
  case False
  with assms(1) show ?thesis
    by (simp add: qexp_step_def term_of_def terms_upto_Suc)
next
  case True
  let ?ts = "terms_upto latex d eigseq n"
  let ?u = "latex (take d (eigseq ! n)) n"
  from assms(2) obtain c cs where l: "?u = c # cs"
    by (cases ?u) auto
  have next_ts: "terms_upto latex d eigseq (Suc n) = ?ts @ [?u]"
    using True by (simp add: terms_upto_Suc)
  show ?thesis
  proof (cases "?ts = []")
    case True
    have "qexp_step latex d eigseq (Inr (loop_string ?ts)) n
            = Inr (py_add (loop_string []) (LatexExpr (enclosed ?u)))"
      using True \<open>term_nonzero (take d (eigseq ! n))\<close> assms(1)
      by (simp add: qexp_step_def term_of_def enclosed_def content_loop_string)
    then show ?thesis using True next_ts loop_string_snoc_first [of ?u] by simp
  next
    case False
    then have ne: "content (loop_string ?ts) \<noteq> []"
      by (simp add: content_loop_string join_terms_empty)
    have sg: "py_add (Str ''+'') (LatexExpr ?u) = LatexExpr (latex_concat ''+'' ?u)"
      by simp
    have "qexp_step latex d eigseq (Inr (loop_string ?ts)) n
            = Inr (py_add (loop_string ?ts) (LatexExpr (enclosed (signed_term ?u))))"
    proof (cases "c = CHR ''-''")
      case True
      then have "signed_term ?u = ?u" using l by simp
      then show ?thesis
        using True l ne \<open>term_nonzero (take d (eigseq ! n))\<close> assms(1)
        by (simp add: qexp_step_def term_of_def enclosed_def Let_def)
    next
      case False
      then have "signed_term ?u = latex_concat ''+'' ?u" using l by simp
      then show ?thesis
        using False l ne \<open>term_nonzero (take d (eigseq ! n))\<close> assms(1)
        by (simp add: qexp_step_def term_of_def enclosed_def Let_def)
    qed
    then show ?thesis
      using loop_string_snoc_later [OF False, of ?u] next_ts by simp
  qed
qed

lemma qexp_fold_join:
  assumes "\<forall>j<n. d \<le> length (eigseq ! j)" and "\<forall>t j. latex t j \<noteq> []"
  shows "foldl (qexp_step latex d eigseq) (Inr (Str [])) [0..<n]
           = Inr (loop_string (terms_upto latex d eigseq n))"
  using assms(1)
proof (induction n)
  case 0
  show ?case by (simp add: terms_upto_def loop_string_def)
next
  case (Suc n)
  then have ih: "foldl (qexp_step latex d eigseq) (Inr (Str [])) [0..<n]
           = Inr (loop_string (terms_upto latex d eigseq n))" by simp
  from Suc.prems have "d \<le> length (eigseq ! n)" by simp
  from qexp_step_join [OF this assms(2)] ih show ?case by simp
qed

lemma remainder_marker_props:
  "remainder_marker prec \<noteq> []" "hd (remainder_marker prec) = bs"
  by (simp_all add: remainder_marker_def)

lemma py_add_marker:
  "py_add (loop_string ts) (Str (remainder_marker prec)) = qexp_string ts prec"
  using remainder_marker_props [of prec]
  by (simp add: loop_string_def qexp_string_def latex_concat_join)

text \<open>
  Claim C2. For a non-empty input whose rows are at least as long as the first one, and a
  typesetting that never gives the empty string, the output is made of the typeset terms
  of the rows whose term is not zero, in order, each between \<^verbatim>\<open>\(\<close> and \<^verbatim>\<open>\)\<close> and
  separated by blanks, where every term after the first has a \<^verbatim>\<open>+\<close> put in front unless
  it begins with a minus sign, followed by the remainder marker. The terms that are zero
  leave nothing in the output; when every term is zero the output is the marker alone.
\<close>

theorem eigs_as_seqseq_to_qexp_policy:
  assumes "eigseq \<noteq> []"
    and "\<forall>row\<in>set eigseq. length (eigseq ! 0) \<le> length row"
    and "\<forall>t j. latex t j \<noteq> []"
  shows "eigs_as_seqseq_to_qexp latex eigseq
           = Inr (qexp_string (nonzero_terms latex (length (eigseq ! 0)) eigseq) (length eigseq))"
proof -
  from assms(2) have "\<forall>j<length eigseq. length (eigseq ! 0) \<le> length (eigseq ! j)"
    by simp
  from qexp_fold_join [OF this assms(3)] assms(1) show ?thesis
    by (simp add: eigs_as_seqseq_to_qexp_def nonzero_terms_def Let_def py_add_marker)
qed

text \<open>
  The theorem at four rows: a zero term, a first term, a term with a minus sign and a term
  that gets a plus sign.
\<close>

theorem eigs_as_seqseq_to_qexp_policy_witness:
  "eigs_as_seqseq_to_qexp sample_latex [[0, 0], [1, 3], [-2, 0], [0, 5]]
     = Inr (LatexExpr (bs # ''( 4q^{1} '' @ bs # '') '' @ bs # ''( -2q^{2} '' @ bs # '') ''
                       @ bs # ''( + 5q^{3} '' @ bs # '') '' @ bs # ''(+O(q^{4})'' @ bs # '')''))"
proof -
  have a: "[[0, 0], [1, 3], [-2, 0], [0, 5]] \<noteq> ([] :: int list list)" by simp
  have b: "\<forall>row\<in>set [[0, 0], [1, 3], [-2, 0], [0, 5 :: int]].
             length ([[0, 0], [1, 3], [-2, 0], [0, 5]] ! 0) \<le> length row" by simp
  have c: "\<forall>t j. sample_latex t j \<noteq> []" by (simp add: sample_latex_def)
  show ?thesis
    unfolding eigs_as_seqseq_to_qexp_policy [OF a b c]
    by (simp add: qexp_string_def nonzero_terms_def terms_upto_def term_nonzero_def upt_rec
        sample_latex_def str_int_def str_nat.simps enclosed_def latex_concat_def
        remainder_marker_def)
qed

lemma latex_concat_enclosed_marker:
  "latex_concat (enclosed u) (remainder_marker prec)
     = enclosed u @ CHR '' '' # remainder_marker prec"
  using enclosed_props [of u] remainder_marker_props [of prec]
  by (simp add: latex_concat_def)

text \<open>
  Claim C1. For the input \<open>[[0,0],[1,3]]\<close> the output is the typeset term with the
  coefficients 1 and 3 at power 1 between \<^verbatim>\<open>\(\<close> and \<^verbatim>\<open>\)\<close>, with nothing for the zero
  constant term, followed by a blank and the remainder marker \<^verbatim>\<open>\(+O(q^{2})\)\<close>; when the
  typeset term is not empty and neither begins nor ends with a blank, the output is
  \<^verbatim>\<open>\( t \) \(+O(q^{2})\)\<close> for the typeset term \<open>t\<close>. For the empty input the output is
  the string \<^verbatim>\<open>O(1)\<close>.
\<close>

theorem eigs_as_seqseq_to_qexp_example:
  "eigs_as_seqseq_to_qexp latex [[0, 0], [1, 3]]
     = Inr (LatexExpr (enclosed (latex [1, 3] 1) @ '' '' @ bs # ''(+O(q^{2})'' @ bs # '')''))
   \<and> (latex [1, 3] 1 \<noteq> [] \<and> hd (latex [1, 3] 1) \<noteq> CHR '' ''
        \<and> last (latex [1, 3] 1) \<noteq> CHR '' '' \<longrightarrow>
      eigs_as_seqseq_to_qexp latex [[0, 0], [1, 3]]
        = Inr (LatexExpr (bs # ''( '' @ latex [1, 3] 1 @ '' '' @ bs # '') ''
                          @ bs # ''(+O(q^{2})'' @ bs # '')'')))
   \<and> eigs_as_seqseq_to_qexp latex [] = Inr (Str ''O(1)'')"
proof -
  have 1: "eigs_as_seqseq_to_qexp latex [[0, 0], [1, 3]]
     = Inr (LatexExpr (enclosed (latex [1, 3] 1) @ '' '' @ bs # ''(+O(q^{2})'' @ bs # '')''))"
    by (simp add: eigs_as_seqseq_to_qexp_def qexp_step_def term_of_def term_nonzero_def upt_rec
        enclosed_def latex_concat_def remainder_marker_def str_nat.simps Let_def)
  have 2: "latex [1, 3] 1 \<noteq> [] \<and> hd (latex [1, 3] 1) \<noteq> CHR '' ''
        \<and> last (latex [1, 3] 1) \<noteq> CHR '' '' \<longrightarrow>
      eigs_as_seqseq_to_qexp latex [[0, 0], [1, 3]]
        = Inr (LatexExpr (bs # ''( '' @ latex [1, 3] 1 @ '' '' @ bs # '') ''
                          @ bs # ''(+O(q^{2})'' @ bs # '')''))"
    using 1 by (simp add: enclosed_plain)
  have 3: "eigs_as_seqseq_to_qexp latex [] = Inr (Str ''O(1)'')"
    by (simp add: eigs_as_seqseq_to_qexp_def)
  from 1 2 3 show ?thesis by blast
qed

text \<open>The theorem at a typesetting that gives \<^verbatim>\<open>4q^{1}\<close> for the term.\<close>

theorem eigs_as_seqseq_to_qexp_example_witness:
  "sample_latex [1, 3] 1 = ''4q^{1}''
   \<and> eigs_as_seqseq_to_qexp sample_latex [[0, 0], [1, 3]]
       = Inr (LatexExpr (bs # ''( 4q^{1} '' @ bs # '') '' @ bs # ''(+O(q^{2})'' @ bs # '')''))"
proof -
  have t: "sample_latex [1, 3] 1 = ''4q^{1}''"
    by (simp add: sample_latex_def str_int_def str_nat.simps)
  have h: "sample_latex [1, 3] 1 \<noteq> [] \<and> hd (sample_latex [1, 3] 1) \<noteq> CHR '' ''
        \<and> last (sample_latex [1, 3] 1) \<noteq> CHR '' ''"
    unfolding t by simp
  from eigs_as_seqseq_to_qexp_example [of sample_latex] h
  have "eigs_as_seqseq_to_qexp sample_latex [[0, 0], [1, 3]]
        = Inr (LatexExpr (bs # ''( '' @ sample_latex [1, 3] 1 @ '' '' @ bs # '') ''
                          @ bs # ''(+O(q^{2})'' @ bs # '')''))"
    by blast
  then show ?thesis unfolding t by simp
qed

section \<open>The character orbit label\<close>







section \<open>Fetching the eigenvalues\<close>

lemma qexp_loop_error:
  "qexp_loop i evs q = Inl e \<Longrightarrow> e = ValueError ''Missing eigenvalue''"
  by (induction evs arbitrary: i q) (auto split: if_splits option.splits)

lemma qexp_loop_raises_iff:
  "(\<exists>e. qexp_loop i evs q = Inl e) \<longleftrightarrow>
     (\<exists>k<length evs. ev_n (evs ! k) \<noteq> int (i + k) + 1
        \<and> (\<forall>m<k. ev_n (evs ! m) = int (i + m) + 1 \<and> has_vec (evs ! m)))"
proof (induction evs arbitrary: i q)
  case Nil
  show ?case by simp
next
  case (Cons ev evs)
  show ?case
  proof (cases "ev_n ev \<noteq> int i + 1")
    case True
    then show ?thesis by auto
  next
    case ok: False
    show ?thesis
    proof (cases "has_vec ev")
      case False
      then have "\<exists>r. qexp_loop i (ev # evs) q = Inr r"
        using ok by (auto simp: has_vec_def split: option.splits)
      moreover have "\<not> (\<exists>k<length (ev # evs). ev_n ((ev # evs) ! k) \<noteq> int (i + k) + 1
        \<and> (\<forall>m<k. ev_n ((ev # evs) ! m) = int (i + m) + 1 \<and> has_vec ((ev # evs) ! m)))"
      proof
        assume "\<exists>k<length (ev # evs). ev_n ((ev # evs) ! k) \<noteq> int (i + k) + 1
        \<and> (\<forall>m<k. ev_n ((ev # evs) ! m) = int (i + m) + 1 \<and> has_vec ((ev # evs) ! m))"
        then obtain k where k: "ev_n ((ev # evs) ! k) \<noteq> int (i + k) + 1"
          "\<forall>m<k. ev_n ((ev # evs) ! m) = int (i + m) + 1 \<and> has_vec ((ev # evs) ! m)" by blast
        show False
        proof (cases k)
          case 0
          with k ok show False by simp
        next
          case (Suc k')
          with k(2) have "has_vec ((ev # evs) ! 0)" by blast
          with False show False by simp
        qed
      qed
      ultimately show ?thesis by auto
    next
      case True
      then obtain v where v: "ev_an ev = Some v" "v \<noteq> []"
        by (auto simp: has_vec_def split: option.splits)
      have step: "qexp_loop i (ev # evs) q = qexp_loop (Suc i) evs (q @ [v])"
        using ok v by simp
      have "(\<exists>k<length (ev # evs). ev_n ((ev # evs) ! k) \<noteq> int (i + k) + 1
        \<and> (\<forall>m<k. ev_n ((ev # evs) ! m) = int (i + m) + 1 \<and> has_vec ((ev # evs) ! m)))
        \<longleftrightarrow> (\<exists>k<length evs. ev_n (evs ! k) \<noteq> int (Suc i + k) + 1
        \<and> (\<forall>m<k. ev_n (evs ! m) = int (Suc i + m) + 1 \<and> has_vec (evs ! m)))"
        (is "?L \<longleftrightarrow> ?R")
      proof
        assume ?L
        then obtain k where k: "k < length (ev # evs)" "ev_n ((ev # evs) ! k) \<noteq> int (i + k) + 1"
          "\<forall>m<k. ev_n ((ev # evs) ! m) = int (i + m) + 1 \<and> has_vec ((ev # evs) ! m)" by blast
        from k(2) ok obtain k' where k': "k = Suc k'" by (cases k) auto
        have "\<forall>m<k'. ev_n (evs ! m) = int (Suc i + m) + 1 \<and> has_vec (evs ! m)"
        proof (intro allI impI)
          fix m assume "m < k'"
          then have "Suc m < k" using k' by simp
          with k(3) have "ev_n ((ev # evs) ! Suc m) = int (i + Suc m) + 1 \<and> has_vec ((ev # evs) ! Suc m)"
            by blast
          then show "ev_n (evs ! m) = int (Suc i + m) + 1 \<and> has_vec (evs ! m)" by simp
        qed
        moreover have "k' < length evs" "ev_n (evs ! k') \<noteq> int (Suc i + k') + 1"
          using k k' by auto
        ultimately show ?R by blast
      next
        assume ?R
        then obtain k where k: "k < length evs" "ev_n (evs ! k) \<noteq> int (Suc i + k) + 1"
          "\<forall>m<k. ev_n (evs ! m) = int (Suc i + m) + 1 \<and> has_vec (evs ! m)" by blast
        have "\<forall>m<Suc k. ev_n ((ev # evs) ! m) = int (i + m) + 1 \<and> has_vec ((ev # evs) ! m)"
        proof (intro allI impI)
          fix m assume m: "m < Suc k"
          show "ev_n ((ev # evs) ! m) = int (i + m) + 1 \<and> has_vec ((ev # evs) ! m)"
          proof (cases m)
            case 0
            then show ?thesis using ok True by simp
          next
            case (Suc m')
            then have "m' < k" using m by simp
            with k(3) have "ev_n (evs ! m') = int (Suc i + m') + 1 \<and> has_vec (evs ! m')" by blast
            then show ?thesis using Suc by simp
          qed
        qed
        moreover have "Suc k < length (ev # evs)" "ev_n ((ev # evs) ! Suc k) \<noteq> int (i + Suc k) + 1"
          using k by auto
        ultimately show ?L by blast
      qed
      then show ?thesis using step Cons.IH [of "Suc i" "q @ [v]"] by simp
    qed
  qed
qed

lemma qexp_loop_exact:
  "qexp_loop i evs q = Inr (True, q') \<Longrightarrow>
     q' = q @ map (\<lambda>ev. the (ev_an ev)) evs
     \<and> (\<forall>k<length evs. ev_n (evs ! k) = int (i + k) + 1 \<and> has_vec (evs ! k))"
proof (induction evs arbitrary: i q)
  case Nil
  then show ?case by simp
next
  case (Cons ev evs)
  from Cons.prems obtain v where v: "ev_n ev = int i + 1" "ev_an ev = Some v" "v \<noteq> []"
    and rest: "qexp_loop (Suc i) evs (q @ [v]) = Inr (True, q')"
    by (auto split: if_splits option.splits)
  from Cons.IH [OF rest] have ih: "q' = (q @ [v]) @ map (\<lambda>ev. the (ev_an ev)) evs"
    "\<forall>k<length evs. ev_n (evs ! k) = int (Suc i + k) + 1 \<and> has_vec (evs ! k)" by auto
  have "\<forall>k<length (ev # evs). ev_n ((ev # evs) ! k) = int (i + k) + 1 \<and> has_vec ((ev # evs) ! k)"
  proof (intro allI impI)
    fix k assume k: "k < length (ev # evs)"
    show "ev_n ((ev # evs) ! k) = int (i + k) + 1 \<and> has_vec ((ev # evs) ! k)"
    proof (cases k)
      case 0
      then show ?thesis using v by (simp add: has_vec_def)
    next
      case (Suc k')
      then have "k' < length evs" using k by simp
      with ih(2) have "ev_n (evs ! k') = int (Suc i + k') + 1 \<and> has_vec (evs ! k')" by blast
      then show ?thesis using Suc by simp
    qed
  qed
  then show ?case using ih(1) v by simp
qed

lemma init_qexp_raises:
  "(\<exists>e. init_qexp dm eigenvals = Inl e) \<longleftrightarrow>
     (\<exists>e. qexp_loop 0 (rows_of eigenvals) [replicate (nat dm) 0] = Inl e)"
proof (cases "truthy eigenvals")
  case True
  then show ?thesis by (auto simp: init_qexp_def Let_def split: sum.splits)
next
  case False
  then have "rows_of eigenvals = []" by (cases eigenvals) auto
  with False show ?thesis by (simp add: init_qexp_def)
qed

lemma init_qexp_error:
  "init_qexp dm eigenvals = Inl e \<Longrightarrow> e = ValueError ''Missing eigenvalue''"
  by (auto simp: init_qexp_def Let_def split: if_splits sum.splits dest: qexp_loop_error)

text \<open>
  Claim C3, as the code has it. Fetching the eigenvalues raises exactly when some row at
  position \<open>k\<close> (counted from 0) has an index other than \<open>k + 1\<close> while every row before it
  has the right index and carries an eigenvalue vector; the error is then the ValueError
  with the message \<^verbatim>\<open>Missing eigenvalue\<close>. A row without a vector ends the loop, and the
  indices of the rows after it are not checked. Rows with the indices 1, 2, 4 that all
  carry vectors raise, and rows with the indices 1, 2, 3 never raise.
\<close>

theorem init_qexp_missing_eigenvalue:
  "init_qexp dm eigenvals = Inl e \<longleftrightarrow>
     e = ValueError ''Missing eigenvalue''
     \<and> (\<exists>k<length (rows_of eigenvals). ev_n (rows_of eigenvals ! k) \<noteq> int k + 1
          \<and> (\<forall>m<k. ev_n (rows_of eigenvals ! m) = int m + 1 \<and> has_vec (rows_of eigenvals ! m)))"
proof
  assume a: "init_qexp dm eigenvals = Inl e"
  then have "\<exists>e. init_qexp dm eigenvals = Inl e" by blast
  then show "e = ValueError ''Missing eigenvalue''
     \<and> (\<exists>k<length (rows_of eigenvals). ev_n (rows_of eigenvals ! k) \<noteq> int k + 1
          \<and> (\<forall>m<k. ev_n (rows_of eigenvals ! m) = int m + 1 \<and> has_vec (rows_of eigenvals ! m)))"
    using init_qexp_error [OF a]
      qexp_loop_raises_iff [of 0 "rows_of eigenvals" "[replicate (nat dm) 0]"]
    by (simp add: init_qexp_raises)
next
  assume b: "e = ValueError ''Missing eigenvalue''
     \<and> (\<exists>k<length (rows_of eigenvals). ev_n (rows_of eigenvals ! k) \<noteq> int k + 1
          \<and> (\<forall>m<k. ev_n (rows_of eigenvals ! m) = int m + 1 \<and> has_vec (rows_of eigenvals ! m)))"
  then have "\<exists>e. init_qexp dm eigenvals = Inl e"
    using qexp_loop_raises_iff [of 0 "rows_of eigenvals" "[replicate (nat dm) 0]"]
    by (simp add: init_qexp_raises)
  then obtain e' where e': "init_qexp dm eigenvals = Inl e'" by blast
  with init_qexp_error [OF e'] b show "init_qexp dm eigenvals = Inl e" by simp
qed

text \<open>The theorem at rows with the indices 1, 2, 4 and at rows with the indices 1, 2, 3.\<close>

theorem init_qexp_missing_eigenvalue_witness:
  "init_qexp 2 (PyList [\<lparr>ev_n = 1, ev_an = Some [1, 0]\<rparr>, \<lparr>ev_n = 2, ev_an = Some [0, 1]\<rparr>,
                        \<lparr>ev_n = 4, ev_an = Some [1, 1]\<rparr>])
     = Inl (ValueError ''Missing eigenvalue'')
   \<and> (\<forall>e. init_qexp 2 (PyList [\<lparr>ev_n = 1, ev_an = Some [1, 0]\<rparr>, \<lparr>ev_n = 2, ev_an = Some [0, 1]\<rparr>,
                        \<lparr>ev_n = 3, ev_an = Some [1, 1]\<rparr>]) \<noteq> Inl e)"
proof
  let ?rows = "[\<lparr>ev_n = 1, ev_an = Some [1, 0]\<rparr>, \<lparr>ev_n = 2, ev_an = Some [0, 1]\<rparr>,
                        \<lparr>ev_n = 4, ev_an = Some [1, 1]\<rparr>]"
  have "\<forall>m<2. ev_n (?rows ! m) = int m + 1 \<and> has_vec (?rows ! m)"
    by (simp add: has_vec_def less_Suc_eq numeral_2_eq_2)
  then have "\<exists>k<length (rows_of (PyList ?rows)). ev_n (rows_of (PyList ?rows) ! k) \<noteq> int k + 1
          \<and> (\<forall>m<k. ev_n (rows_of (PyList ?rows) ! m) = int m + 1 \<and> has_vec (rows_of (PyList ?rows) ! m))"
    by (intro exI [of _ 2]) simp
  then show "init_qexp 2 (PyList ?rows) = Inl (ValueError ''Missing eigenvalue'')"
    using init_qexp_missing_eigenvalue [of 2 "PyList ?rows" "ValueError ''Missing eigenvalue''"]
    by blast
next
  let ?rows = "[\<lparr>ev_n = 1, ev_an = Some [1, 0]\<rparr>, \<lparr>ev_n = 2, ev_an = Some [0, 1]\<rparr>,
                        \<lparr>ev_n = 3, ev_an = Some [1, 1]\<rparr>]"
  have "\<forall>k<length ?rows. ev_n (?rows ! k) = int k + 1"
    by (auto simp: less_Suc_eq)
  then have "\<not> (\<exists>k<length (rows_of (PyList ?rows)). ev_n (rows_of (PyList ?rows) ! k) \<noteq> int k + 1
          \<and> (\<forall>m<k. ev_n (rows_of (PyList ?rows) ! m) = int m + 1 \<and> has_vec (rows_of (PyList ?rows) ! m)))"
    unfolding rows_of.simps by blast
  then show "\<forall>e. init_qexp 2 (PyList ?rows) \<noteq> Inl e"
    using init_qexp_missing_eigenvalue [of 2 "PyList ?rows"] by blast
qed

text \<open>
  Rows with the indices 1, 2, 4 whose first row has no vector: the loop stops at the first
  row and nothing is raised.
\<close>

theorem init_qexp_gap_counterexample:
  "init_qexp 2 (PyList [\<lparr>ev_n = 1, ev_an = None\<rparr>, \<lparr>ev_n = 2, ev_an = Some [0, 1]\<rparr>,
                        \<lparr>ev_n = 4, ev_an = Some [1, 1]\<rparr>])
     = Inr \<lparr>has_exact_qexp = False, qexp = Some [[0, 0]], qexp_prec = Some 0\<rparr>"
  by (simp add: init_qexp_def numeral_2_eq_2)

section \<open>Label validation and the four-part pattern\<close>

lemma re_match_One:
  "re_match (One a # r) st s \<longleftrightarrow> (\<exists>c q. s = c # q \<and> atom_ok a c \<and> re_match r False q)"
  by (cases s) auto

lemma re_match_Plus:
  "re_match (Plus a # r) st s \<longleftrightarrow>
     (\<exists>p q. s = p @ q \<and> p \<noteq> [] \<and> list_all (atom_ok a) p \<and> re_match r False q)"
proof (induction s arbitrary: st)
  case Nil
  show ?case by simp
next
  case (Cons c cs)
  show ?case
  proof
    assume "re_match (Plus a # r) st (c # cs)"
    then have ok: "atom_ok a c" and alt: "re_match (Plus a # r) False cs \<or> re_match r False cs"
      by auto
    from alt show "\<exists>p q. c # cs = p @ q \<and> p \<noteq> [] \<and> list_all (atom_ok a) p \<and> re_match r False q"
    proof
      assume "re_match (Plus a # r) False cs"
      with Cons.IH [of False] obtain p q where
        "cs = p @ q" "p \<noteq> []" "list_all (atom_ok a) p" "re_match r False q" by blast
      with ok have "c # cs = (c # p) @ q \<and> c # p \<noteq> [] \<and> list_all (atom_ok a) (c # p)
          \<and> re_match r False q" by simp
      then show ?thesis by blast
    next
      assume "re_match r False cs"
      with ok have "c # cs = [c] @ cs \<and> [c] \<noteq> [] \<and> list_all (atom_ok a) [c]
          \<and> re_match r False cs" by simp
      then show ?thesis by blast
    qed
  next
    assume "\<exists>p q. c # cs = p @ q \<and> p \<noteq> [] \<and> list_all (atom_ok a) p \<and> re_match r False q"
    then obtain p q where pq: "c # cs = p @ q" "p \<noteq> []" "list_all (atom_ok a) p"
      "re_match r False q" by blast
    then obtain p' where p': "p = c # p'" "cs = p' @ q"
      by (cases p) auto
    show "re_match (Plus a # r) st (c # cs)"
    proof (cases "p' = []")
      case True
      with pq p' show ?thesis by simp
    next
      case False
      with pq p' have "re_match (Plus a # r) False cs"
        using Cons.IH [of False] by auto
      with pq p' show ?thesis by simp
    qed
  qed
qed

lemma is_digit_eq: "is_digit = atom_ok (Range (CHR ''0'') (CHR ''9''))"
  by (rule ext) (simp only: is_digit_def)

lemma is_lower_eq: "is_lower = atom_ok (Range (CHR ''a'') (CHR ''z''))"
  by (rule ext) (simp only: is_lower_def)

lemma tail_ok_iff: "tail_ok e \<longleftrightarrow> e = [] \<or> e = ''\<newline>''"
  by (simp add: tail_ok_def)

lemma re_match_run_dot:
  "re_match (Plus a # One (Lit (CHR ''.'')) # r) st s \<longleftrightarrow>
     (\<exists>p q. s = p @ CHR ''.'' # q \<and> p \<noteq> [] \<and> list_all (atom_ok a) p \<and> re_match r False q)"
  unfolding re_match_Plus re_match_One atom_ok.simps(1) by auto

lemma valid_label_unfold:
  "valid_label s \<longleftrightarrow>
     (\<exists>a b c d e. s = a @ CHR ''.'' # b @ CHR ''.'' # c @ CHR ''.'' # d @ e
        \<and> a \<noteq> [] \<and> list_all is_digit a
        \<and> b \<noteq> [] \<and> list_all is_digit b
        \<and> c \<noteq> [] \<and> list_all is_lower c
        \<and> d \<noteq> [] \<and> list_all is_lower d
        \<and> (e = [] \<or> e = ''\<newline>''))"
proof
  assume "valid_label s"
  then have "re_match (Plus (Range (CHR ''0'') (CHR ''9'')) # One (Lit (CHR ''.'')) #
      Plus (Range (CHR ''0'') (CHR ''9'')) # One (Lit (CHR ''.'')) #
      Plus (Range (CHR ''a'') (CHR ''z'')) # One (Lit (CHR ''.'')) #
      [Plus (Range (CHR ''a'') (CHR ''z'')), Dollar]) True s"
    by (simp add: valid_label_def LABEL_RE_def)
  then obtain a q1 where 1: "s = a @ CHR ''.'' # q1" "a \<noteq> []" "list_all is_digit a"
    and r1: "re_match (Plus (Range (CHR ''0'') (CHR ''9'')) # One (Lit (CHR ''.'')) #
      Plus (Range (CHR ''a'') (CHR ''z'')) # One (Lit (CHR ''.'')) #
      [Plus (Range (CHR ''a'') (CHR ''z'')), Dollar]) False q1"
    unfolding re_match_run_dot [of _ "Plus _ # _"] is_digit_eq by blast
  from r1 obtain b q2 where 2: "q1 = b @ CHR ''.'' # q2" "b \<noteq> []" "list_all is_digit b"
    and r2: "re_match (Plus (Range (CHR ''a'') (CHR ''z'')) # One (Lit (CHR ''.'')) #
      [Plus (Range (CHR ''a'') (CHR ''z'')), Dollar]) False q2"
    unfolding re_match_run_dot [of _ "Plus _ # _"] is_digit_eq by blast
  from r2 obtain c q3 where 3: "q2 = c @ CHR ''.'' # q3" "c \<noteq> []" "list_all is_lower c"
    and r3: "re_match [Plus (Range (CHR ''a'') (CHR ''z'')), Dollar] False q3"
    unfolding re_match_run_dot [of _ "[Plus _, Dollar]"] is_lower_eq by blast
  from r3 obtain d e where 4: "q3 = d @ e" "d \<noteq> []" "list_all is_lower d"
    and r4: "tail_ok e"
    unfolding re_match_Plus is_lower_eq tail_ok_def by blast
  have "s = a @ CHR ''.'' # b @ CHR ''.'' # c @ CHR ''.'' # d @ e"
    using 1(1) 2(1) 3(1) 4(1) by simp
  with 1 2 3 4 r4 [unfolded tail_ok_iff]
  show "\<exists>a b c d e. s = a @ CHR ''.'' # b @ CHR ''.'' # c @ CHR ''.'' # d @ e
        \<and> a \<noteq> [] \<and> list_all is_digit a
        \<and> b \<noteq> [] \<and> list_all is_digit b
        \<and> c \<noteq> [] \<and> list_all is_lower c
        \<and> d \<noteq> [] \<and> list_all is_lower d
        \<and> (e = [] \<or> e = ''\<newline>'')"
    by blast
next
  assume "\<exists>a b c d e. s = a @ CHR ''.'' # b @ CHR ''.'' # c @ CHR ''.'' # d @ e
        \<and> a \<noteq> [] \<and> list_all is_digit a
        \<and> b \<noteq> [] \<and> list_all is_digit b
        \<and> c \<noteq> [] \<and> list_all is_lower c
        \<and> d \<noteq> [] \<and> list_all is_lower d
        \<and> (e = [] \<or> e = ''\<newline>'')"
  then obtain a b c d e where s: "s = a @ CHR ''.'' # b @ CHR ''.'' # c @ CHR ''.'' # d @ e"
    and parts: "a \<noteq> []" "list_all is_digit a" "b \<noteq> []" "list_all is_digit b"
      "c \<noteq> []" "list_all is_lower c" "d \<noteq> []" "list_all is_lower d"
    and e: "e = [] \<or> e = ''\<newline>''" by blast
  from e have "tail_ok e" by (simp add: tail_ok_iff)
  with parts(7,8) have r3: "re_match [Plus (Range (CHR ''a'') (CHR ''z'')), Dollar] False (d @ e)"
    unfolding re_match_Plus is_lower_eq tail_ok_def by blast
  with parts(5,6) have r2: "re_match (Plus (Range (CHR ''a'') (CHR ''z'')) # One (Lit (CHR ''.'')) #
      [Plus (Range (CHR ''a'') (CHR ''z'')), Dollar]) False (c @ CHR ''.'' # d @ e)"
    unfolding re_match_run_dot [of _ "[Plus _, Dollar]"] is_lower_eq by blast
  with parts(3,4) have r1: "re_match (Plus (Range (CHR ''0'') (CHR ''9'')) # One (Lit (CHR ''.'')) #
      Plus (Range (CHR ''a'') (CHR ''z'')) # One (Lit (CHR ''.'')) #
      [Plus (Range (CHR ''a'') (CHR ''z'')), Dollar]) False (b @ CHR ''.'' # c @ CHR ''.'' # d @ e)"
    unfolding re_match_run_dot [of _ "Plus _ # _"] is_digit_eq by blast
  with parts(1,2) have "re_match (Plus (Range (CHR ''0'') (CHR ''9'')) # One (Lit (CHR ''.'')) #
      Plus (Range (CHR ''0'') (CHR ''9'')) # One (Lit (CHR ''.'')) #
      Plus (Range (CHR ''a'') (CHR ''z'')) # One (Lit (CHR ''.'')) #
      [Plus (Range (CHR ''a'') (CHR ''z'')), Dollar]) True
        (a @ CHR ''.'' # b @ CHR ''.'' # c @ CHR ''.'' # d @ e)"
    unfolding re_match_run_dot [of _ "Plus _ # _"] is_digit_eq by blast
  then show "valid_label s"
    using s by (simp add: valid_label_def LABEL_RE_def)
qed

lemma valid_label_iff:
  "valid_label s \<longleftrightarrow>
     four_part_label s \<or> (\<exists>t. s = t @ ''\<newline>'' \<and> four_part_label t)"
proof
  assume "valid_label s"
  then obtain a b c d e where s: "s = a @ CHR ''.'' # b @ CHR ''.'' # c @ CHR ''.'' # d @ e"
    and parts: "a \<noteq> []" "list_all is_digit a" "b \<noteq> []" "list_all is_digit b"
      "c \<noteq> []" "list_all is_lower c" "d \<noteq> []" "list_all is_lower d"
    and e: "e = [] \<or> e = ''\<newline>''"
    unfolding valid_label_unfold by blast
  have fp: "four_part_label (a @ ''.'' @ b @ ''.'' @ c @ ''.'' @ d)"
    unfolding four_part_label_def using parts by blast
  from e show "four_part_label s \<or> (\<exists>t. s = t @ ''\<newline>'' \<and> four_part_label t)"
  proof
    assume "e = []"
    with s fp show ?thesis by simp
  next
    assume "e = ''\<newline>''"
    with s have "s = (a @ ''.'' @ b @ ''.'' @ c @ ''.'' @ d) @ ''\<newline>''" by simp
    with fp show ?thesis by blast
  qed
next
  assume "four_part_label s \<or> (\<exists>t. s = t @ ''\<newline>'' \<and> four_part_label t)"
  then obtain t e where s: "s = t @ e" and e: "e = [] \<or> e = ''\<newline>''" and t: "four_part_label t"
    by auto
  from t obtain a b c d where t': "t = a @ ''.'' @ b @ ''.'' @ c @ ''.'' @ d"
    and parts: "a \<noteq> []" "list_all is_digit a" "b \<noteq> []" "list_all is_digit b"
      "c \<noteq> []" "list_all is_lower c" "d \<noteq> []" "list_all is_lower d"
    unfolding four_part_label_def by blast
  have "s = a @ CHR ''.'' # b @ CHR ''.'' # c @ CHR ''.'' # d @ e" using s t' by simp
  with parts e show "valid_label s"
    unfolding valid_label_unfold by blast
qed

lemma four_part_label_chars:
  "four_part_label s \<Longrightarrow> list_all (\<lambda>c. is_digit c \<or> is_lower c \<or> c = CHR ''.'') s"
  unfolding four_part_label_def by (auto simp: list_all_iff)

text \<open>
  Claim C5. \<open>valid_label\<close> is true on \<^verbatim>\<open>1.12.a.a\<close> and false on \<^verbatim>\<open>1.12.a\<close>, \<^verbatim>\<open>abc\<close> and
  \<^verbatim>\<open>1.12.A.a\<close>, but it is also true on \<^verbatim>\<open>1.12.a.a\<close> followed by a newline, which is not
  of the four-part form: by \<open>valid_label_iff\<close> the test accepts the four-part strings and
  the four-part strings followed by one newline.
\<close>

theorem valid_label_trailing_newline:
  "valid_label ''1.12.a.a\<newline>'' \<and> \<not> four_part_label ''1.12.a.a\<newline>''
   \<and> valid_label ''1.12.a.a'' \<and> \<not> valid_label ''1.12.a'' \<and> \<not> valid_label ''abc''
   \<and> \<not> valid_label ''1.12.A.a''"
proof -
  have "\<not> list_all (\<lambda>c. is_digit c \<or> is_lower c \<or> c = CHR ''.'') ''1.12.a.a\<newline>''"
    by (simp add: is_digit_def is_lower_def)
  then have "\<not> four_part_label ''1.12.a.a\<newline>''"
    using four_part_label_chars by blast
  then show ?thesis by (simp add: valid_label_def LABEL_RE_def)
qed

section \<open>Construction of the record and display of the field\<close>

lemma WebNewform_init_Inr:
  assumes "WebNewform_init u db data sp = (calls, Inr w)"
  shows "init_qexp (dim data) (mf_hecke_nf db (hecke_orbit_code data)) = Inr (wn_qexp w)"
    and "char_orbit_label_of (level data) (char_orbit data) = Inr (char_orbit_label w)"
    and "wn_data w = data"
    and "dim_grid w = from_db data"
  using assms
  by (auto simp: WebNewform_init_def Let_def split: option.splits sum.splits list.splits prod.splits)

lemma init_qexp_exact:
  assumes "init_qexp dm eigenvals = Inr st" and "has_exact_qexp st"
  shows "qexp st = Some (replicate (nat dm) 0 # map (\<lambda>ev. the (ev_an ev)) (rows_of eigenvals))"
    and "qexp_prec st = Some (int (length (rows_of eigenvals)))"
    and "\<forall>k<length (rows_of eigenvals).
           ev_n (rows_of eigenvals ! k) = int k + 1 \<and> has_vec (rows_of eigenvals ! k)"
proof -
  from assms obtain q where
    loop: "qexp_loop 0 (rows_of eigenvals) [replicate (nat dm) 0] = Inr (True, q)"
    and st: "st = \<lparr>has_exact_qexp = True, qexp = Some q, qexp_prec = Some (int (length q) - 1)\<rparr>"
    by (auto simp: init_qexp_def Let_def split: if_splits sum.splits prod.splits)
  from qexp_loop_exact [OF loop]
  have q: "q = [replicate (nat dm) 0] @ map (\<lambda>ev. the (ev_an ev)) (rows_of eigenvals)"
    and ix: "\<forall>k<length (rows_of eigenvals).
           ev_n (rows_of eigenvals ! k) = int (0 + k) + 1 \<and> has_vec (rows_of eigenvals ! k)"
    by blast+
  show "qexp st = Some (replicate (nat dm) 0 # map (\<lambda>ev. the (ev_an ev)) (rows_of eigenvals))"
    using st q by simp
  show "qexp_prec st = Some (int (length (rows_of eigenvals)))"
    using st q by simp
  show "\<forall>k<length (rows_of eigenvals).
           ev_n (rows_of eigenvals ! k) = int k + 1 \<and> has_vec (rows_of eigenvals ! k)"
    using ix by simp
qed

text \<open>
  Claim C10. In every record constructed with \<^verbatim>\<open>has_exact_qexp\<close> true, \<^verbatim>\<open>qexp\<close> has one
  entry more than there are fetched rows, its entry 0 is the zero vector of length
  \<^verbatim>\<open>dim\<close>, its entry \<open>n\<close> for \<open>n \<ge> 1\<close> is the vector of the \<open>n\<close>-th fetched row, whose index
  is \<open>n\<close>, and \<^verbatim>\<open>qexp_prec\<close> is \<^verbatim>\<open>len(qexp) - 1\<close>.
\<close>

theorem WebNewform_exact_qexp:
  assumes "WebNewform_init url_character db data space = (calls, Inr w)"
    and "has_exact_qexp (wn_qexp w)"
  shows "\<exists>q. qexp (wn_qexp w) = Some q
           \<and> length q = Suc (length (rows_of (mf_hecke_nf db (hecke_orbit_code data))))
           \<and> q ! 0 = replicate (nat (dim data)) 0
           \<and> (0 \<le> dim data \<longrightarrow> int (length (q ! 0)) = dim data)
           \<and> (\<forall>k<length (rows_of (mf_hecke_nf db (hecke_orbit_code data))).
                 ev_n (rows_of (mf_hecke_nf db (hecke_orbit_code data)) ! k) = int (Suc k)
                 \<and> ev_an (rows_of (mf_hecke_nf db (hecke_orbit_code data)) ! k) = Some (q ! Suc k))
           \<and> qexp_prec (wn_qexp w) = Some (int (length q) - 1)"
proof -
  let ?rows = "rows_of (mf_hecke_nf db (hecke_orbit_code data))"
  let ?q = "replicate (nat (dim data)) (0::int) # map (\<lambda>ev. the (ev_an ev)) ?rows"
  have iq: "init_qexp (dim data) (mf_hecke_nf db (hecke_orbit_code data)) = Inr (wn_qexp w)"
    using WebNewform_init_Inr(1) [OF assms(1)] .
  note ex = init_qexp_exact [OF iq assms(2)]
  have rows: "\<forall>k<length ?rows. ev_n (?rows ! k) = int (Suc k) \<and> ev_an (?rows ! k) = Some (?q ! Suc k)"
  proof (intro allI impI)
    fix k assume k: "k < length ?rows"
    with ex(3) have "ev_n (?rows ! k) = int k + 1" "has_vec (?rows ! k)" by blast+
    then show "ev_n (?rows ! k) = int (Suc k) \<and> ev_an (?rows ! k) = Some (?q ! Suc k)"
      using k by (auto simp: has_vec_def split: option.splits)
  qed
  have "qexp (wn_qexp w) = Some ?q" using ex(1) .
  moreover have "length ?q = Suc (length ?rows)" by simp
  moreover have "?q ! 0 = replicate (nat (dim data)) 0" by simp
  moreover have "0 \<le> dim data \<longrightarrow> int (length (?q ! 0)) = dim data" by simp
  moreover have "qexp_prec (wn_qexp w) = Some (int (length ?q) - 1)" using ex(2) by simp
  ultimately show ?thesis using rows by blast
qed

lemma sample_init:
  "WebNewform_init sample_url sample_db sample_data None =
     ([Lookup_newspaces ''7.3.b'', Search_hecke_nf 42, Lookup_newspaces ''7.3.b''],
      Inr (sample_newform\<lparr>properties :=
             [(''Label'', ''7.3.b.a''), (''Weight'', ''3''), (''Character Orbit'', ''2''),
              (''Representative Character'', bs # ''('' @ bs # ''chi_{7}(6,'' @ bs # ''cdot)'' @ bs # '')''),
              (''Dimension'', ''2''), (''CM'', ''1'')]\<rparr>))"
  by (simp add: WebNewform_init_def sample_db_def sample_data_def sample_rows_def init_qexp_def
      char_orbit_label_of_def cremona_letter_code_def cremona_digits.simps Let_def
      sample_newform_def str_int_def str_nat.simps wrap_def numeral_2_eq_2)

text \<open>The theorem at the record of the example store.\<close>

theorem WebNewform_exact_qexp_witness:
  "\<exists>calls w. WebNewform_init sample_url sample_db sample_data None = (calls, Inr w)
      \<and> has_exact_qexp (wn_qexp w)
      \<and> (\<exists>q. qexp (wn_qexp w) = Some q
            \<and> q ! 0 = replicate (nat (dim sample_data)) 0
            \<and> qexp_prec (wn_qexp w) = Some (int (length q) - 1))"
proof -
  let ?w = "sample_newform\<lparr>properties :=
             [(''Label'', ''7.3.b.a''), (''Weight'', ''3''), (''Character Orbit'', ''2''),
              (''Representative Character'', bs # ''('' @ bs # ''chi_{7}(6,'' @ bs # ''cdot)'' @ bs # '')''),
              (''Dimension'', ''2''), (''CM'', ''1'')]\<rparr>"
  have a: "WebNewform_init sample_url sample_db sample_data None =
     ([Lookup_newspaces ''7.3.b'', Search_hecke_nf 42, Lookup_newspaces ''7.3.b''], Inr ?w)"
    by (rule sample_init)
  have b: "has_exact_qexp (wn_qexp ?w)" by (simp add: sample_newform_def)
  from WebNewform_exact_qexp [OF a b]
  have "\<exists>q. qexp (wn_qexp ?w) = Some q
            \<and> q ! 0 = replicate (nat (dim sample_data)) 0
            \<and> qexp_prec (wn_qexp ?w) = Some (int (length q) - 1)"
    by blast
  with a b show ?thesis by blast
qed

lemma by_label_flow:
  "(\<not> valid_label lbl \<longrightarrow>
      by_label url_character db lbl
        = ([], Inl (ValueError (''Invalid newform label '' @ lbl @ ''.''))))
   \<and> (valid_label lbl \<and> mf_newforms db lbl = None \<longrightarrow>
      by_label url_character db lbl
        = ([Lookup_newforms lbl], Inl (ValueError (''Newform '' @ lbl @ '' not found''))))
   \<and> (four_part_label lbl \<and> mf_newforms db lbl = None \<longrightarrow>
      by_label url_character db lbl
        = ([Lookup_newforms lbl], Inl (ValueError (''Newform '' @ lbl @ '' not found''))))"
  by (simp add: by_label_def valid_label_iff)

text \<open>
  Claim C4. A label of the four-part form without a row in the store raises the ValueError
  \<^verbatim>\<open>Newform ... not found\<close> (\<open>by_label_flow\<close>), but not every malformed label raises the
  ValueError \<^verbatim>\<open>Invalid newform label\<close>: the label \<^verbatim>\<open>7.3.b.a\<close> followed by a newline is not of
  the four-part form, yet it passes the validation, is looked up in the store and raises
  \<^verbatim>\<open>Newform ... not found\<close>.
\<close>

theorem by_label_trailing_newline:
  "\<not> four_part_label ''7.3.b.a\<newline>''
   \<and> by_label sample_url sample_db ''7.3.b.a\<newline>''
       = ([Lookup_newforms ''7.3.b.a\<newline>''],
          Inl (ValueError ''Newform 7.3.b.a\<newline> not found''))
   \<and> by_label sample_url sample_db ''7.3.b.a\<newline>''
       \<noteq> ([], Inl (ValueError ''Invalid newform label 7.3.b.a\<newline>.''))"
proof -
  have "\<not> list_all (\<lambda>c. is_digit c \<or> is_lower c \<or> c = CHR ''.'') ''7.3.b.a\<newline>''"
    by (simp add: is_digit_def is_lower_def)
  then have a: "\<not> four_part_label ''7.3.b.a\<newline>''"
    using four_part_label_chars by blast
  have b: "by_label sample_url sample_db ''7.3.b.a\<newline>''
       = ([Lookup_newforms ''7.3.b.a\<newline>''],
          Inl (ValueError ''Newform 7.3.b.a\<newline> not found''))"
    by (simp add: by_label_def valid_label_def LABEL_RE_def sample_db_def)
  from a b show ?thesis by simp
qed

text \<open>
  Claim C9, as the code has it. Without a coefficient field label \<open>field_display\<close> returns
  the literal \<^verbatim>\<open>\(\Q(\nu)\)\<close>, the symbol of the field generated by \<open>\<nu>\<close>; for the label
  \<^verbatim>\<open>1.1.1.1\<close> it returns what \<^verbatim>\<open>nf_display_knowl\<close> gives for that label and the name
  \<^verbatim>\<open>\(\Q\)\<close>, the symbol of the rationals. Neither path raises in the function itself.
\<close>

theorem field_display_cases:
  "(nf_label (wn_data self) = None \<longrightarrow>
      field_display nf_display_knowl field_pretty self
        = bs # ''('' @ bs # ''Q('' @ bs # ''nu)'' @ bs # '')'')
   \<and> (nf_label (wn_data self) = Some ''1.1.1.1'' \<longrightarrow>
      field_display nf_display_knowl field_pretty self
        = nf_display_knowl ''1.1.1.1'' (bs # ''('' @ bs # ''Q'' @ bs # '')''))"
  by (simp add: field_display_def)

text \<open>The theorem at the example record, without a field label and with the label 1.1.1.1.\<close>

theorem field_display_cases_witness:
  "nf_label (wn_data sample_newform) = None
   \<and> field_display sample_knowl sample_pretty sample_newform
       = bs # ''('' @ bs # ''Q('' @ bs # ''nu)'' @ bs # '')''
   \<and> nf_label (wn_data (sample_newform\<lparr>wn_data := sample_data\<lparr>nf_label := Some ''1.1.1.1''\<rparr>\<rparr>))
       = Some ''1.1.1.1''
   \<and> field_display sample_knowl sample_pretty
        (sample_newform\<lparr>wn_data := sample_data\<lparr>nf_label := Some ''1.1.1.1''\<rparr>\<rparr>)
       = sample_knowl ''1.1.1.1'' (bs # ''('' @ bs # ''Q'' @ bs # '')'')"
proof -
  have a: "nf_label (wn_data sample_newform) = None"
    by (simp add: sample_newform_def sample_data_def)
  have b: "nf_label (wn_data (sample_newform\<lparr>wn_data := sample_data\<lparr>nf_label := Some ''1.1.1.1''\<rparr>\<rparr>))
       = Some ''1.1.1.1''"
    by simp
  show ?thesis
    using a b field_display_cases [of sample_newform sample_knowl sample_pretty]
      field_display_cases [of "sample_newform\<lparr>wn_data := sample_data\<lparr>nf_label := Some ''1.1.1.1''\<rparr>\<rparr>"
        sample_knowl sample_pretty]
    by simp
qed

text \<open>
  Without a field label the result is not the symbol of the rationals \<^verbatim>\<open>\(\Q\)\<close>.
\<close>

theorem field_display_counterexample:
  "nf_label (wn_data sample_newform) = None
   \<and> field_display sample_knowl sample_pretty sample_newform \<noteq> bs # ''('' @ bs # ''Q'' @ bs # '')''"
  by (simp add: field_display_def sample_newform_def sample_data_def)

end
